theory Spec2Isabelle
  imports Main
begin

section \<open>JavaScript values used by both programs\<close>

text \<open>
  A field that may be \<^verbatim>\<open>undefined\<close> is a \<open>string option\<close>. The JavaScript
  expression \<^verbatim>\<open>v || d\<close> on such a field yields \<open>d\<close> when \<open>v\<close> is undefined
  or the empty string (both are falsy), and \<open>v\<close> otherwise.
\<close>

definition js_or :: "string option \<Rightarrow> string \<Rightarrow> string" where
  "js_or v d = (case v of None \<Rightarrow> d | Some s \<Rightarrow> if s = [] then d else s)"

section \<open>Sessions page: categorising the fetched list\<close>

text \<open>
  \<^verbatim>\<open>fetchSessions\<close> of the sessions page (src/unnamed/part_000). An entry of the
  fetched array is an object or null; the fields the page reads are kept as
  they arrive.
\<close>

record session_head =
  sh_fullName :: "string"
  sh_profilePhoto :: "string option"

record session =
  s_id :: "string option"
  s_title :: "string option"
  s_description :: "string option"
  s_sessionHead :: "session_head option"
  s_date :: "string option"
  s_time :: "string option"
  s_venue :: "string option"
  s_status :: "string option"

record formatted_session =
  f_title :: "string"
  f_description :: "string"
  f_conductedBy :: "session_head"
  f_profileImage :: "string"
  f_date :: "string"
  f_month :: "string"
  f_venue :: "string"
  f_location :: "string"
  f_id :: "string option"
  f_status :: "string"

text \<open>
  The page builds a \<^verbatim>\<open>Date\<close> from \<^verbatim>\<open>session.date\<close>, sets its hours and
  minutes from \<^verbatim>\<open>(session.time || '00:00')\<close> and prints the day of the month
  and the long month name in the browser's locale. The runtime's calendar is
  a parameter: \<open>day_of\<close> and \<open>month_of\<close> map the raw date and the effective
  time string to the two printed strings.
\<close>

record calendar =
  day_of :: "string option \<Rightarrow> string \<Rightarrow> string"
  month_of :: "string option \<Rightarrow> string \<Rightarrow> string"

definition formatSession :: "calendar \<Rightarrow> session \<Rightarrow> formatted_session" where
  "formatSession cal s =
     (let sessionTime = js_or (s_time s) ''00:00'' in
      \<lparr> f_title = js_or (s_title s) ''Untitled Session'',
        f_description = js_or (s_description s) ''No description available'',
        f_conductedBy =
          (case s_sessionHead s of
             None \<Rightarrow> \<lparr> sh_fullName = ''TBA'', sh_profilePhoto = None \<rparr>
           | Some h \<Rightarrow> h),
        f_profileImage =
          js_or (case s_sessionHead s of None \<Rightarrow> None | Some h \<Rightarrow> sh_profilePhoto h)
            ''/default-profile.png'',
        f_date = day_of cal (s_date s) sessionTime,
        f_month = month_of cal (s_date s) sessionTime,
        f_venue = js_or (s_venue s) ''TBA'',
        f_location = js_or (s_venue s) ''TBA'',
        f_id = s_id s,
        f_status = js_or (s_status s) ''upcoming'' \<rparr>)"

record categorizedSessions =
  ongoing :: "formatted_session list"
  previous :: "formatted_session list"
  upcoming :: "formatted_session list"

text \<open>
  The body of the \<^verbatim>\<open>forEach\<close> callback: a null entry returns at once;
  otherwise the formatted session is pushed onto the end of one bucket,
  chosen by strict comparison of the raw \<^verbatim>\<open>session.status\<close>.
\<close>

definition categorize_step ::
  "calendar \<Rightarrow> categorizedSessions \<Rightarrow> session option \<Rightarrow> categorizedSessions" where
  "categorize_step cal acc entry =
     (case entry of
        None \<Rightarrow> acc
      | Some s \<Rightarrow>
          (let formattedSession = formatSession cal s in
           if s_status s = Some ''ongoing''
           then acc\<lparr> ongoing := ongoing acc @ [formattedSession] \<rparr>
           else if s_status s = Some ''completed''
           then acc\<lparr> previous := previous acc @ [formattedSession] \<rparr>
           else acc\<lparr> upcoming := upcoming acc @ [formattedSession] \<rparr>))"

definition categorize :: "calendar \<Rightarrow> session option list \<Rightarrow> categorizedSessions" where
  "categorize cal allSessions =
     foldl (categorize_step cal) \<lparr> ongoing = [], previous = [], upcoming = [] \<rparr> allSessions"

text \<open>The non-null entries of the fetched list, in their order.\<close>

definition present :: "session option list \<Rightarrow> session list" where
  "present allSessions = List.map_filter (\<lambda>e. e) allSessions"

definition is_ongoing :: "session \<Rightarrow> bool" where
  "is_ongoing s = (s_status s = Some ''ongoing'')"

definition is_completed :: "session \<Rightarrow> bool" where
  "is_completed s = (s_status s = Some ''completed'')"

definition is_other :: "session \<Rightarrow> bool" where
  "is_other s = (\<not> is_ongoing s \<and> \<not> is_completed s)"

section \<open>Authentication controller: data\<close>

text \<open>
  src/server/controllers/authController.js. The identity record is the
  Mongoose document of the User model; a field the source may leave undefined
  is an option. Times are readings of one clock (\<^verbatim>\<open>Date.now()\<close>).
\<close>

type_synonym ident = string

record user =
  u_id :: "ident"
  fullName :: "string option"
  email :: "string option"
  password :: "string option"
  role :: "string option"
  department :: "string option"
  yearOfStudy :: "string option"
  studentId :: "string option"
  isEmailVerified :: "bool"
  googleId :: "string option"
  profileImage :: "string option"
  passwordResetToken :: "string option"
  passwordResetExpires :: "nat option"
  emailVerificationToken :: "string option"
  emailVerificationExpires :: "nat option"

text \<open>
  The object literals handed to \<^verbatim>\<open>res.json\<close>: keys in the order written,
  a value that may be undefined kept as \<open>JUndefined\<close>.
\<close>

datatype jsval =
    JUndefined
  | JBool bool
  | JStr string
  | JObj "(string \<times> jsval) list"

definition of_opt :: "string option \<Rightarrow> jsval" where
  "of_opt v = (case v of None \<Rightarrow> JUndefined | Some s \<Rightarrow> JStr s)"

record response =
  statusCode :: "nat"
  json :: "jsval"

text \<open>
  The parts of the Express request the controller reads: the Authorization
  header, the parsed body (undefined when no body was parsed; otherwise its
  string fields by name), the \<^verbatim>\<open>:token\<close> route parameter, and
  \<^verbatim>\<open>req.user\<close>.
\<close>

record request =
  headers_authorization :: "string option"
  body :: "(string \<rightharpoonup> string) option"
  params_token :: "string"
  req_user :: "user option"

text \<open>
  What a handler does with a request: send a JSON response, send a redirect,
  call \<^verbatim>\<open>next()\<close> with the request as it then is, or let an exception
  leave the handler.
\<close>

datatype outcome =
    Responded response
  | Redirected string
  | Next request
  | Threw string

definition respond :: "nat \<Rightarrow> jsval \<Rightarrow> outcome" where
  "respond code j = Responded \<lparr> statusCode = code, json = j \<rparr>"

definition error_json :: "string \<Rightarrow> jsval" where
  "error_json msg = JObj [(''status'', JStr ''error''), (''message'', JStr msg)]"

definition success_json :: "string \<Rightarrow> jsval" where
  "success_json msg = JObj [(''status'', JStr ''success''), (''message'', JStr msg)]"

text \<open>
  The messages of the TypeErrors the engine (V8) raises when the body is
  undefined and a property is destructured from \<^verbatim>\<open>req.body\<close>, and when a
  property of an undefined value is read. \<open>quoted\<close> puts a name between
  single quotes.
\<close>

definition quoted :: "string \<Rightarrow> string" where
  "quoted s = CHR 0x27 # s @ [CHR 0x27]"

definition destructure_message :: "string \<Rightarrow> string" where
  "destructure_message prop =
     ''Cannot destructure property '' @ quoted prop @ '' of '' @ quoted ''req.body''
       @ '' as it is undefined.''"

definition read_message :: "string \<Rightarrow> string" where
  "read_message prop = ''Cannot read properties of undefined (reading '' @ quoted prop @ '')''"

section \<open>Collaborators of the controller\<close>

text \<open>The decoded token payload: \<^verbatim>\<open>{ id, iat, exp }\<close>.\<close>

record jwt_payload =
  jwt_id :: "ident option"
  jwt_iat :: "nat"
  jwt_exp :: "nat"

text \<open>
  The configuration read from \<^verbatim>\<open>process.env\<close> and the functions the
  controller imports whose code is not in the repository's sources at hand.
  \<open>JWT_SECRET\<close> is the configured secret, an unset variable reading as the
  empty string; \<open>JWT_EXPIRE\<close> is the number of seconds the configured lifetime
  denotes, none when the variable is unset or is no time span. Each function
  is a parameter:
  \<^item> \<open>sha256\<close>: \<^verbatim>\<open>crypto.createHash('sha256').update(s).digest('hex')\<close>;
  \<^item> \<open>hashPassword\<close>: the hash the User model's save path stores for a password;
  \<^item> \<open>comparePassword\<close>: the User model's method, \<open>Inl msg\<close> when it throws;
  \<^item> \<open>validate\<close>: the User schema's validators, \<open>Some msg\<close> when they reject;
  \<^item> \<open>new_id\<close>: the \<^verbatim>\<open>_id\<close> the store gives a new document;
  \<^item> \<open>reset_ttl\<close>: the lifetime of a reset ticket;
  \<^item> \<open>sendPasswordResetEmail\<close>: the email service, \<open>Some msg\<close> when the awaited
    call rejects with an error of that message;
  \<^item> \<open>jwt_mac\<close>, \<open>jwt_encode\<close>, \<open>jwt_decode\<close>: the keyed signature over a
    payload and the compact serialisation of a signed payload to and from a
    string.
\<close>

record deps =
  JWT_SECRET :: "string"
  JWT_EXPIRE :: "nat option"
  FRONTEND_URL :: "string"
  sha256 :: "string \<Rightarrow> string"
  hashPassword :: "string \<Rightarrow> string"
  comparePassword :: "user \<Rightarrow> string \<Rightarrow> string + bool"
  validate :: "user \<Rightarrow> string option"
  new_id :: "user list \<Rightarrow> ident"
  reset_ttl :: "nat"
  sendPasswordResetEmail :: "string option \<Rightarrow> string \<Rightarrow> string option"
  jwt_mac :: "string \<Rightarrow> jwt_payload \<Rightarrow> string"
  jwt_encode :: "jwt_payload \<Rightarrow> string \<Rightarrow> string"
  jwt_decode :: "string \<Rightarrow> (jwt_payload \<times> string) option"

subsection \<open>Token service\<close>

datatype token_error = InvalidTokenError

text \<open>
  Modelled from the spec: \<^verbatim>\<open>jwt.sign\<close> and \<^verbatim>\<open>jwt.verify\<close> of the
  jsonwebtoken package, which is not among the sources. Issue "produces a
  signed token embedding the identity id and a fixed time-to-live taken from
  configuration"; verify "checks signature and expiry; fails if the signature
  does not match, the payload is malformed, or the token has expired", with
  one error kind for every failure. The package refuses an empty or unset
  secret in both calls, and in \<^verbatim>\<open>sign\<close> a lifetime that is unset or is no
  time span: \<^verbatim>\<open>sign\<close> then throws an error with the message given here
  (\<open>Inl\<close>), before anything is signed.
\<close>

definition secret_message :: "string" where
  "secret_message = ''secretOrPrivateKey must have a value''"

definition expiresIn_message :: "string" where
  "expiresIn_message =
     CHR 0x22 # ''expiresIn'' @ CHR 0x22 #
       '' should be a number of seconds or string representing a timespan''"

definition jwt_sign ::
  "deps \<Rightarrow> ident option \<Rightarrow> string \<Rightarrow> nat option \<Rightarrow> nat \<Rightarrow> string + string" where
  "jwt_sign d payload_id secret expiresIn clock =
     (if secret = [] then Inl secret_message
      else
        (case expiresIn of
           None \<Rightarrow> Inl expiresIn_message
         | Some ttl \<Rightarrow>
             (let p = \<lparr> jwt_id = payload_id, jwt_iat = clock, jwt_exp = clock + ttl \<rparr>
              in Inr (jwt_encode d p (jwt_mac d secret p)))))"

definition jwt_verify :: "deps \<Rightarrow> string \<Rightarrow> string \<Rightarrow> nat \<Rightarrow> token_error + jwt_payload" where
  "jwt_verify d tok secret clock =
     (if secret = [] then Inl InvalidTokenError
      else
        (case jwt_decode d tok of
           None \<Rightarrow> Inl InvalidTokenError
         | Some (p, sg) \<Rightarrow>
             if sg \<noteq> jwt_mac d secret p then Inl InvalidTokenError
             else if jwt_exp p \<le> clock then Inl InvalidTokenError
             else Inr p))"

text \<open>
  \<^verbatim>\<open>signToken\<close>, lines 46-50; \<open>now\<close> is the clock at the call. It returns
  the token (\<open>Inr\<close>) or throws what \<^verbatim>\<open>jwt.sign\<close> throws (\<open>Inl\<close>).
\<close>

definition signToken :: "deps \<Rightarrow> nat \<Rightarrow> ident option \<Rightarrow> string + string" where
  "signToken d now i = jwt_sign d i (JWT_SECRET d) (JWT_EXPIRE d) now"

subsection \<open>Credential store\<close>

text \<open>
  Modelled from the spec: the User model (models/User) over its collection,
  which is not among the sources. The collection is the list of its
  documents. \<^verbatim>\<open>findOne\<close> returns the first document that meets the filter,
  or null; a filter key whose value is undefined constrains nothing.
  \<^verbatim>\<open>findById(undefined)\<close> finds nothing.
\<close>

definition User_findOne :: "(user \<Rightarrow> bool) \<Rightarrow> user list \<Rightarrow> user option" where
  "User_findOne flt db = List.find flt db"

definition by_email :: "string option \<Rightarrow> user \<Rightarrow> bool" where
  "by_email e u = (case e of None \<Rightarrow> True | Some a \<Rightarrow> email u = Some a)"


definition by_passwordReset :: "string \<Rightarrow> nat \<Rightarrow> user \<Rightarrow> bool" where
  "by_passwordReset h now u =
     (passwordResetToken u = Some h \<and>
      (case passwordResetExpires u of None \<Rightarrow> False | Some t \<Rightarrow> now < t))"

definition by_emailVerification :: "string \<Rightarrow> nat \<Rightarrow> user \<Rightarrow> bool" where
  "by_emailVerification h now u =
     (emailVerificationToken u = Some h \<and>
      (case emailVerificationExpires u of None \<Rightarrow> False | Some t \<Rightarrow> now < t))"

definition User_findById :: "ident option \<Rightarrow> user list \<Rightarrow> user option" where
  "User_findById i db =
     (case i of None \<Rightarrow> None | Some a \<Rightarrow> List.find (\<lambda>u. u_id u = a) db)"

text \<open>
  Modelled from the spec: \<^verbatim>\<open>User.create\<close>. "Stores the new identity
  (password hashed by the store's own save path)"; the email is unique in the
  store. The \<open>u_id\<close> of the argument is ignored: the store assigns it. Schema
  defaults are not modelled.
\<close>

definition User_create :: "deps \<Rightarrow> user list \<Rightarrow> user \<Rightarrow> string + (user \<times> user list)" where
  "User_create d db doc =
     (case validate d doc of
        Some msg \<Rightarrow> Inl msg
      | None \<Rightarrow>
          if email doc \<in> set (map email db)
          then Inl ''E11000 duplicate key error''
          else (let u = doc\<lparr> u_id := new_id d db,
                              password := map_option (hashPassword d) (password doc) \<rparr>
                in Inr (u, db @ [u])))"

text \<open>
  Modelled from the spec: \<^verbatim>\<open>user.save()\<close>. The document is validated; a
  password that was assigned since the document was loaded is hashed; the
  stored document with the same \<^verbatim>\<open>_id\<close> is replaced, all assigned fields
  in the one update.
\<close>

definition user_save :: "deps \<Rightarrow> user list \<Rightarrow> bool \<Rightarrow> user \<Rightarrow> string + user list" where
  "user_save d db password_modified u =
     (case validate d u of
        Some msg \<Rightarrow> Inl msg
      | None \<Rightarrow>
          (let u' = (if password_modified
                     then u\<lparr> password := map_option (hashPassword d) (password u) \<rparr>
                     else u)
           in Inr (map (\<lambda>v. if u_id v = u_id u then u' else v) db)))"

text \<open>
  Modelled from the spec: \<^verbatim>\<open>user.generatePasswordResetToken()\<close>.
  "Generates a random reset token, stores only its one-way hash plus an
  expiry" on the document and returns the unhashed token; \<open>rnd\<close> is the
  random token drawn.
\<close>

definition generatePasswordResetToken :: "deps \<Rightarrow> nat \<Rightarrow> string \<Rightarrow> user \<Rightarrow> string \<times> user" where
  "generatePasswordResetToken d now rnd u =
     (rnd, u\<lparr> passwordResetToken := Some (sha256 d rnd),
              passwordResetExpires := Some (now + reset_ttl d) \<rparr>)"

section \<open>Authentication controller: handlers\<close>

text \<open>
  Each handler takes the collaborators, the clock, the store and the request,
  and returns what it does with the request and the store it leaves. The
  body of a \<^verbatim>\<open>try\<close> whose collaborator throws continues in the
  \<^verbatim>\<open>catch\<close> block, which answers 400 with the error's message.
\<close>

text \<open>
  The verify callback of the Google strategy, lines 57-76. The profile is what
  passport hands over: its id, the values of its \<^verbatim>\<open>emails\<close> and
  \<^verbatim>\<open>photos\<close> entries, and its display name. The result is what
  \<^verbatim>\<open>done\<close> is called with: the error's message or the user. A new user
  is created without a password.
\<close>

record profile =
  profile_id :: "string"
  profile_emails :: "string list"
  profile_displayName :: "string option"
  profile_photos :: "string list"


text \<open>
  \<^verbatim>\<open>exports.signup\<close>, lines 78-126. \<open>signup_document\<close> is the object
  literal given to \<^verbatim>\<open>User.create\<close> (lines 92-101), built from the
  destructured body; the fields it does not mention are undefined. When
  \<^verbatim>\<open>signToken\<close> throws, the record is already stored.
\<close>

definition signup_document :: "(string \<rightharpoonup> string) \<Rightarrow> user" where
  "signup_document b =
     \<lparr> u_id = [],
       fullName = b ''fullName'',
       email = b ''email'',
       password = b ''password'',
       role = b ''role'',
       department = b ''department'',
       yearOfStudy = b ''yearOfStudy'',
       studentId = b ''studentId'',
       isEmailVerified = True,
       googleId = None,
       profileImage = None,
       passwordResetToken = None,
       passwordResetExpires = None,
       emailVerificationToken = None,
       emailVerificationExpires = None \<rparr>"

definition signup :: "deps \<Rightarrow> nat \<Rightarrow> user list \<Rightarrow> request \<Rightarrow> outcome \<times> user list" where
  "signup d now db req =
     (case body req of
        None \<Rightarrow> (respond 400 (error_json (destructure_message ''fullName'')), db)
      | Some b \<Rightarrow>
          (case User_findOne (by_email (b ''email'')) db of
             Some existingUser \<Rightarrow>
               (respond 400 (error_json ''Email already registered''), db)
           | None \<Rightarrow>
               (case User_create d db (signup_document b) of
                  Inl msg \<Rightarrow> (respond 400 (error_json msg), db)
                | Inr (user, db') \<Rightarrow>
                    (case signToken d now (Some (u_id user)) of
                       Inl msg \<Rightarrow> (respond 400 (error_json msg), db')
                     | Inr token \<Rightarrow>
                         (respond 201
                            (JObj [(''status'', JStr ''success''),
                                   (''token'', JStr token),
                                   (''data'',
                                     JObj [(''user'',
                                       JObj [(''id'', JStr (u_id user)),
                                             (''fullName'', of_opt (fullName user)),
                                             (''email'', of_opt (email user)),
                                             (''role'', of_opt (role user)),
                                             (''isEmailVerified'',
                                                JBool (isEmailVerified user))])])]),
                          db')))))"

text \<open>\<^verbatim>\<open>exports.verifyEmail\<close>, lines 128-162.\<close>

definition verifyEmail :: "deps \<Rightarrow> nat \<Rightarrow> user list \<Rightarrow> request \<Rightarrow> outcome \<times> user list" where
  "verifyEmail d now db req =
     (let hashedToken = sha256 d (params_token req) in
      case User_findOne (by_emailVerification hashedToken now) db of
        None \<Rightarrow> (respond 400 (error_json ''Invalid or expired verification token''), db)
      | Some user \<Rightarrow>
          (case user_save d db False
                  (user\<lparr> isEmailVerified := True,
                         emailVerificationToken := None,
                         emailVerificationExpires := None \<rparr>) of
             Inl msg \<Rightarrow> (respond 400 (error_json msg), db)
           | Inr db' \<Rightarrow> (respond 200 (success_json ''Email verified successfully''), db')))"

text \<open>
  \<^verbatim>\<open>exports.forgotPassword\<close>, lines 164-190; \<open>rnd\<close> is the random token the
  request draws. The save comes before the send, so a send that throws
  leaves the saved store.
\<close>

definition forgotPassword ::
  "deps \<Rightarrow> nat \<Rightarrow> string \<Rightarrow> user list \<Rightarrow> request \<Rightarrow> outcome \<times> user list" where
  "forgotPassword d now rnd db req =
     (case body req of
        None \<Rightarrow> (respond 400 (error_json (destructure_message ''email'')), db)
      | Some b \<Rightarrow>
          (case User_findOne (by_email (b ''email'')) db of
             None \<Rightarrow> (respond 404 (error_json ''No user found with that email address''), db)
           | Some user \<Rightarrow>
               (case generatePasswordResetToken d now rnd user of
                  (resetToken, user') \<Rightarrow>
                    (case user_save d db False user' of
                       Inl msg \<Rightarrow> (respond 400 (error_json msg), db)
                     | Inr db' \<Rightarrow>
                         (case sendPasswordResetEmail d (b ''email'') resetToken of
                            Some msg \<Rightarrow> (respond 400 (error_json msg), db')
                          | None \<Rightarrow>
                              (respond 200 (success_json ''Password reset link sent to email''),
                               db'))))))"

text \<open>\<^verbatim>\<open>exports.resetPassword\<close>, lines 192-226.\<close>

definition resetPassword :: "deps \<Rightarrow> nat \<Rightarrow> user list \<Rightarrow> request \<Rightarrow> outcome \<times> user list" where
  "resetPassword d now db req =
     (let hashedToken = sha256 d (params_token req) in
      case User_findOne (by_passwordReset hashedToken now) db of
        None \<Rightarrow> (respond 400 (error_json ''Invalid or expired reset token''), db)
      | Some user \<Rightarrow>
          (case body req of
             None \<Rightarrow> (respond 400 (error_json (read_message ''password'')), db)
           | Some b \<Rightarrow>
               (case user_save d db True
                       (user\<lparr> password := b ''password'',
                              passwordResetToken := None,
                              passwordResetExpires := None \<rparr>) of
                  Inl msg \<Rightarrow> (respond 400 (error_json msg), db)
                | Inr db' \<Rightarrow> (respond 200 (success_json ''Password reset successfully''), db'))))"

text \<open>
  \<^verbatim>\<open>exports.login\<close>, lines 228-271. It writes nothing to the store.
  \<^verbatim>\<open>!email || !password\<close> holds for an undefined and for an empty field.
\<close>

definition login :: "deps \<Rightarrow> nat \<Rightarrow> user list \<Rightarrow> request \<Rightarrow> outcome" where
  "login d now db req =
     (case body req of
        None \<Rightarrow> respond 400 (error_json (destructure_message ''email''))
      | Some b \<Rightarrow>
          (case (b ''email'', b ''password'') of
             (Some e, Some pw) \<Rightarrow>
               if e = [] \<or> pw = []
               then respond 400 (error_json ''Please provide email and password'')
               else
                 (case User_findOne (by_email (Some e)) db of
                    None \<Rightarrow> respond 401 (error_json ''Incorrect email or password'')
                  | Some user \<Rightarrow>
                      (case comparePassword d user pw of
                         Inl msg \<Rightarrow> respond 400 (error_json msg)
                       | Inr matches \<Rightarrow>
                           if \<not> matches
                           then respond 401 (error_json ''Incorrect email or password'')
                           else
                             (case signToken d now (Some (u_id user)) of
                                Inl msg \<Rightarrow> respond 400 (error_json msg)
                              | Inr token \<Rightarrow>
                                  respond 200
                                    (JObj [(''status'', JStr ''success''),
                                           (''token'', JStr token),
                                           (''data'',
                                             JObj [(''user'',
                                               JObj [(''id'', JStr (u_id user)),
                                                     (''fullName'', of_opt (fullName user)),
                                                     (''email'', of_opt (email user)),
                                                     (''role'', of_opt (role user))])])]))))
           | _ \<Rightarrow> respond 400 (error_json ''Please provide email and password'')))"

text \<open>
  \<^verbatim>\<open>exports.googleCallback\<close>, lines 277-291. The arguments \<open>err\<close> and \<open>user\<close>
  are what passport hands to the callback: an error's message or none, and
  the resolved user or \<^verbatim>\<open>false\<close> (here \<open>None\<close>, whose \<^verbatim>\<open>_id\<close> reads as
  undefined). The callback has no \<^verbatim>\<open>try\<close>: what \<^verbatim>\<open>signToken\<close> throws
  leaves the handler.
\<close>

definition googleCallback :: "deps \<Rightarrow> nat \<Rightarrow> string option \<Rightarrow> user option \<Rightarrow> outcome" where
  "googleCallback d now err user =
     (case err of
        Some msg \<Rightarrow> respond 401 (error_json msg)
      | None \<Rightarrow>
          (case signToken d now (map_option u_id user) of
             Inl msg \<Rightarrow> Threw msg
           | Inr token \<Rightarrow> Redirected (FRONTEND_URL d @ ''/auth/success?token='' @ token)))"

subsection \<open>Access guard\<close>

definition startsWith :: "string \<Rightarrow> string \<Rightarrow> bool" where
  "startsWith s p = (take (length p) s = p)"

text \<open>\<^verbatim>\<open>s.split(c)\<close> for a one-character separator: never an empty array.\<close>

fun split_on :: "char \<Rightarrow> string \<Rightarrow> string list" where
  "split_on c [] = [[]]"
| "split_on c (x # xs) =
     (if x = c then [] # split_on c xs
      else (case split_on c xs of
              [] \<Rightarrow> [[x]]
            | w # ws \<Rightarrow> (x # w) # ws))"

text \<open>Reading an array at an index: undefined beyond its end.\<close>

definition at_index :: "'a list \<Rightarrow> nat \<Rightarrow> 'a option" where
  "at_index xs i = (if i < length xs then Some (xs ! i) else None)"

text \<open>
  Lines 296-299 of \<^verbatim>\<open>protect\<close>: the variable \<^verbatim>\<open>token\<close> after the first
  \<^verbatim>\<open>if\<close>. An empty header is falsy.
\<close>

definition bearer_token :: "request \<Rightarrow> string option" where
  "bearer_token req =
     (case headers_authorization req of
        None \<Rightarrow> None
      | Some h \<Rightarrow>
          if h \<noteq> [] \<and> startsWith h ''Bearer''
          then at_index (split_on (CHR '' '') h) 1
          else None)"

text \<open>
  \<^verbatim>\<open>exports.protect\<close>, lines 293-329. It reads the store and writes nothing
  to it. \<^verbatim>\<open>!token\<close> holds for an undefined and for an empty token. Every
  error thrown in the \<^verbatim>\<open>try\<close> ends in the one \<^verbatim>\<open>catch\<close> response.
\<close>

definition protect :: "deps \<Rightarrow> nat \<Rightarrow> user list \<Rightarrow> request \<Rightarrow> outcome" where
  "protect d now db req =
     (case bearer_token req of
        None \<Rightarrow>
          respond 401 (error_json ''You are not logged in! Please log in to get access.'')
      | Some token \<Rightarrow>
          if token = []
          then respond 401 (error_json ''You are not logged in! Please log in to get access.'')
          else
            (case jwt_verify d token (JWT_SECRET d) now of
               Inl err \<Rightarrow> respond 401 (error_json ''Invalid token'')
             | Inr decoded \<Rightarrow>
                 (case User_findById (jwt_id decoded) db of
                    None \<Rightarrow>
                      respond 401
                        (error_json ''The user belonging to this token no longer exists.'')
                  | Some currentUser \<Rightarrow> Next (req\<lparr> req_user := Some currentUser \<rparr>))))"

text \<open>
  \<^verbatim>\<open>exports.restrictTo\<close>, lines 331-341. It has no \<^verbatim>\<open>try\<close>: reading
  \<^verbatim>\<open>req.user.role\<close> with no \<^verbatim>\<open>req.user\<close> throws. An undefined role is in
  no list of role names.
\<close>

definition restrictTo :: "string list \<Rightarrow> request \<Rightarrow> outcome" where
  "restrictTo roles req =
     (case req_user req of
        None \<Rightarrow> Threw (read_message ''role'')
      | Some u \<Rightarrow>
          if \<not> (case role u of None \<Rightarrow> False | Some r \<Rightarrow> r \<in> set roles)
          then respond 403 (error_json ''You do not have permission to perform this action'')
          else Next req)"

text \<open>
  A protected route with an allow-list: \<^verbatim>\<open>protect\<close> mounted before
  \<^verbatim>\<open>restrictTo(...roles)\<close>, which runs when \<^verbatim>\<open>protect\<close> calls
  \<^verbatim>\<open>next()\<close>.
\<close>

definition protect_then_restrictTo ::
  "deps \<Rightarrow> nat \<Rightarrow> user list \<Rightarrow> string list \<Rightarrow> request \<Rightarrow> outcome" where
  "protect_then_restrictTo d now db roles req =
     (case protect d now db req of
        Next req' \<Rightarrow> restrictTo roles req'
      | other \<Rightarrow> other)"

section \<open>Reading responses\<close>

text \<open>
  The standard envelope \<^verbatim>\<open>{ status, message?, token?, data? }\<close>: an object
  with no other key, whose \<^verbatim>\<open>status\<close> is \<^verbatim>\<open>success\<close> or \<^verbatim>\<open>error\<close>.
\<close>

definition is_envelope :: "jsval \<Rightarrow> bool" where
  "is_envelope j =
     (case j of
        JObj kvs \<Rightarrow>
          list_all (\<lambda>k. k \<in> set [''status'', ''message'', ''token'', ''data'']) (map fst kvs) \<and>
          map_of kvs ''status'' \<in> set [Some (JStr ''success''), Some (JStr ''error'')]
      | _ \<Rightarrow> False)"

definition envelope_outcome :: "outcome \<Rightarrow> bool" where
  "envelope_outcome out =
     (case out of
        Responded r \<Rightarrow> is_envelope (json r) \<and> 100 \<le> statusCode r \<and> statusCode r < 600
      | _ \<Rightarrow> False)"

text \<open>An error leaves the handler.\<close>

definition escapes :: "outcome \<Rightarrow> bool" where
  "escapes out = (case out of Threw msg \<Rightarrow> True | _ \<Rightarrow> False)"

text \<open>Every key of a value, at any depth.\<close>

fun json_keys :: "jsval \<Rightarrow> string list" where
  "json_keys (JObj kvs) = concat (map (\<lambda>kv. fst kv # json_keys (snd kv)) kvs)"
| "json_keys _ = []"

section \<open>A sample configuration and store\<close>

text \<open>
  Stand-ins for the collaborators, used to run the handlers on concrete
  requests: a tagged string for each hash, a schema that requires an email,
  an email service that succeeds, and a token codec that knows one token.
\<close>

definition sample_payload :: "jwt_payload" where
  "sample_payload = \<lparr> jwt_id = Some ''u1'', jwt_iat = 100, jwt_exp = 160 \<rparr>"

definition sample_deps :: "deps" where
  "sample_deps =
     \<lparr> JWT_SECRET = ''s3cret'',
       JWT_EXPIRE = Some 60,
       FRONTEND_URL = ''http://localhost:3000'',
       sha256 = (\<lambda>s. ''sha:'' @ s),
       hashPassword = (\<lambda>s. ''bcrypt:'' @ s),
       comparePassword =
         (\<lambda>u pw. case password u of
                    None \<Rightarrow> Inl ''Illegal arguments: string, undefined''
                  | Some h \<Rightarrow> Inr (h = ''bcrypt:'' @ pw)),
       validate = (\<lambda>u. if email u = None then Some ''Please provide your email'' else None),
       new_id = (\<lambda>db. ''u'' @ replicate (Suc (length db)) (CHR ''1'')),
       reset_ttl = 600,
       sendPasswordResetEmail = (\<lambda>to_addr tok. None),
       jwt_mac = (\<lambda>secret p. ''mac:'' @ secret),
       jwt_encode = (\<lambda>p sg. ''tok''),
       jwt_decode =
         (\<lambda>s. if s = ''tok'' then Some (sample_payload, ''mac:s3cret'') else None) \<rparr>"

definition alice :: "user" where
  "alice =
     \<lparr> u_id = ''u1'',
       fullName = Some ''Alice'',
       email = Some ''alice@example.com'',
       password = Some ''bcrypt:Secret123!'',
       role = Some ''student'',
       department = None,
       yearOfStudy = None,
       studentId = None,
       isEmailVerified = True,
       googleId = None,
       profileImage = None,
       passwordResetToken = Some ''sha:r4nd'',
       passwordResetExpires = Some 5000,
       emailVerificationToken = None,
       emailVerificationExpires = None \<rparr>"

definition sample_request :: "request" where
  "sample_request =
     \<lparr> headers_authorization = Some ''Bearer tok'',
       body = Some [''email'' \<mapsto> ''alice@example.com'', ''password'' \<mapsto> ''Wrong-1''],
       params_token = ''r4nd'',
       req_user = None \<rparr>"

definition bob_request :: "request" where
  "bob_request =
     \<lparr> headers_authorization = None,
       body = Some [''fullName'' \<mapsto> ''Bob'', ''email'' \<mapsto> ''bob@example.com'',
                    ''password'' \<mapsto> ''Hunter2-hunter'', ''role'' \<mapsto> ''student''],
       params_token = [],
       req_user = None \<rparr>"

text \<open>The record the sample store holds for that request once it is registered.\<close>

definition bob :: "user" where
  "bob =
     \<lparr> u_id = ''u11'',
       fullName = Some ''Bob'',
       email = Some ''bob@example.com'',
       password = Some ''bcrypt:Hunter2-hunter'',
       role = Some ''student'',
       department = None,
       yearOfStudy = None,
       studentId = None,
       isEmailVerified = True,
       googleId = None,
       profileImage = None,
       passwordResetToken = None,
       passwordResetExpires = None,
       emailVerificationToken = None,
       emailVerificationExpires = None \<rparr>"


definition carol :: "user" where
  "carol =
     \<lparr> u_id = ''u11'',
       fullName = Some ''Carol'',
       email = Some ''carol@example.com'',
       password = None,
       role = Some ''student'',
       department = None,
       yearOfStudy = None,
       studentId = None,
       isEmailVerified = True,
       googleId = Some ''g-1001'',
       profileImage = Some ''https://example.com/carol.png'',
       passwordResetToken = None,
       passwordResetExpires = None,
       emailVerificationToken = None,
       emailVerificationExpires = None \<rparr>"

definition carol_login :: "request" where
  "carol_login =
     \<lparr> headers_authorization = None,
       body = Some [''email'' \<mapsto> ''carol@example.com'', ''password'' \<mapsto> ''Guess-1''],
       params_token = [],
       req_user = None \<rparr>"


text \<open>The same collaborators with no secret configured.\<close>

definition no_secret_deps :: "deps" where
  "no_secret_deps = sample_deps\<lparr> JWT_SECRET := [] \<rparr>"

text \<open>The same collaborators with an email service whose send is rejected.\<close>

definition smtp_down_deps :: "deps" where
  "smtp_down_deps =
     sample_deps\<lparr> sendPasswordResetEmail := (\<lambda>to_addr tok. Some ''connect ECONNREFUSED'') \<rparr>"

section \<open>Properties of the session categorisation\<close>

lemma present_Nil: "present [] = []"
  by (simp add: present_def map_filter_simps)

lemma present_snoc_None: "present (xs @ [None]) = present xs"
  by (simp add: present_def map_filter_def)

lemma present_snoc_Some: "present (xs @ [Some s]) = present xs @ [s]"
  by (simp add: present_def map_filter_def)

lemma categorize_snoc:
  "categorize cal (xs @ [e]) = categorize_step cal (categorize cal xs) e"
  by (simp add: categorize_def)

lemma categorize_buckets:
  "ongoing (categorize cal xs) = map (formatSession cal) (filter is_ongoing (present xs)) \<and>
   previous (categorize cal xs) = map (formatSession cal) (filter is_completed (present xs)) \<and>
   upcoming (categorize cal xs) = map (formatSession cal) (filter is_other (present xs))"
proof (induction xs rule: rev_induct)
  case Nil
  show ?case by (simp add: categorize_def present_Nil)
next
  case (snoc e xs)
  show ?case
  proof (cases e)
    case None
    with snoc show ?thesis
      by (simp add: categorize_snoc categorize_step_def present_snoc_None)
  next
    case (Some s)
    with snoc show ?thesis
      by (simp add: categorize_snoc categorize_step_def present_snoc_Some Let_def
          is_ongoing_def is_completed_def is_other_def)
  qed
qed

lemma filter_three_way:
  "length (filter is_ongoing ys) + length (filter is_completed ys) + length (filter is_other ys)
     = length ys"
  by (induction ys) (auto simp: is_ongoing_def is_completed_def is_other_def)

text \<open>
  Claim C10. The categorisation is a partition of the non-null entries: the
  bucket \<open>ongoing\<close> holds exactly the formatted sessions whose status is
  \<open>ongoing\<close>, \<open>previous\<close> exactly those whose status is \<open>completed\<close>, and
  \<open>upcoming\<close> every other one (cancelled, unknown or missing status), each in
  the order of the fetched list; null entries appear nowhere, and the three
  buckets together hold as many sessions as the list has non-null entries.
\<close>

theorem categorize_partition:
  "ongoing (categorize cal xs) = map (formatSession cal) (filter is_ongoing (present xs)) \<and>
   previous (categorize cal xs) = map (formatSession cal) (filter is_completed (present xs)) \<and>
   upcoming (categorize cal xs) = map (formatSession cal) (filter is_other (present xs)) \<and>
   length (ongoing (categorize cal xs)) + length (previous (categorize cal xs))
     + length (upcoming (categorize cal xs)) = length (present xs)"
  using categorize_buckets [of cal xs] filter_three_way [of "present xs"] by simp

section \<open>Looking up the first match in a list\<close>

lemma find_only:
  "u \<in> set xs \<Longrightarrow> P u \<Longrightarrow> (\<forall>v\<in>set xs. P v \<longrightarrow> v = u) \<Longrightarrow> List.find P xs = Some u"
proof (induction xs)
  case Nil
  then show ?case by simp
next
  case (Cons x xs)
  show ?case
  proof (cases "P x")
    case True
    with Cons.prems(3) have "x = u" by simp
    with True show ?thesis by simp
  next
    case False
    with Cons.prems(1,2) have "u \<in> set xs" by auto
    moreover from Cons.prems(3) have "\<forall>v\<in>set xs. P v \<longrightarrow> v = u" by simp
    ultimately have "List.find P xs = Some u" using Cons.prems(2) by (intro Cons.IH)
    with False show ?thesis by simp
  qed
qed

lemma find_map_none: "(\<And>v. v \<in> set xs \<Longrightarrow> \<not> P (f v)) \<Longrightarrow> List.find P (map f xs) = None"
  by (simp add: find_None_iff)

section \<open>Access guard\<close>

lemma protect_no_token:
  assumes "bearer_token req = None \<or> bearer_token req = Some []"
  shows "protect d now db req =
           respond 401 (error_json ''You are not logged in! Please log in to get access.'')"
  using assms by (elim disjE) (simp_all add: protect_def)

lemma bearer_token_no_header: "headers_authorization req = None \<Longrightarrow> bearer_token req = None"
  by (simp add: bearer_token_def)

lemma protect_invalid:
  assumes "bearer_token req = Some t" and "t \<noteq> []"
    and "jwt_verify d t (JWT_SECRET d) now = Inl e"
  shows "protect d now db req = respond 401 (error_json ''Invalid token'')"
  using assms by (simp add: protect_def)

lemma protect_stale:
  assumes "bearer_token req = Some t" and "t \<noteq> []"
    and "jwt_verify d t (JWT_SECRET d) now = Inr p"
    and "User_findById (jwt_id p) db = None"
  shows "protect d now db req =
           respond 401 (error_json ''The user belonging to this token no longer exists.'')"
  using assms by (simp add: protect_def)

lemma protect_grants:
  assumes "bearer_token req = Some t" and "t \<noteq> []"
    and "jwt_verify d t (JWT_SECRET d) now = Inr p"
    and "User_findById (jwt_id p) db = Some u"
  shows "protect d now db req = Next (req\<lparr> req_user := Some u \<rparr>)"
  using assms by (simp add: protect_def)

lemma restrictTo_attached:
  "restrictTo roles (req\<lparr> req_user := Some u \<rparr>) =
     (if \<exists>r. role u = Some r \<and> r \<in> set roles
      then Next (req\<lparr> req_user := Some u \<rparr>)
      else respond 403 (error_json ''You do not have permission to perform this action''))"
  by (cases "role u") (simp_all add: restrictTo_def)

lemma guard_after_response:
  "protect d now db req = respond code j \<Longrightarrow>
   protect_then_restrictTo d now db roles req = respond code j"
  by (simp add: protect_then_restrictTo_def respond_def)

lemma guard_after_next:
  "protect d now db req = Next req' \<Longrightarrow>
   protect_then_restrictTo d now db roles req = restrictTo roles req'"
  by (simp add: protect_then_restrictTo_def)

text \<open>
  Claim C2. On a protected route with an allow-list the guard answers in this
  order: 401 "not logged in" when the Authorization header is absent or
  carries no bearer token; 401 "Invalid token" when the token is there and
  its verification fails; 401 "no longer exists" when the token verifies and
  no identity has the embedded id; 403 when the identity exists and its role
  is not in the allow-list; otherwise the identity is attached to the request
  and the request is passed on.
\<close>

theorem access_guard_order:
  "(headers_authorization req = None \<or> bearer_token req = None \<or> bearer_token req = Some [] \<longrightarrow>
      protect_then_restrictTo d now db roles req =
        respond 401 (error_json ''You are not logged in! Please log in to get access.'')) \<and>
   (bearer_token req = Some t \<and> t \<noteq> [] \<and> jwt_verify d t (JWT_SECRET d) now = Inl e \<longrightarrow>
      protect_then_restrictTo d now db roles req = respond 401 (error_json ''Invalid token'')) \<and>
   (bearer_token req = Some t \<and> t \<noteq> [] \<and> jwt_verify d t (JWT_SECRET d) now = Inr p \<and>
    User_findById (jwt_id p) db = None \<longrightarrow>
      protect_then_restrictTo d now db roles req =
        respond 401 (error_json ''The user belonging to this token no longer exists.'')) \<and>
   (bearer_token req = Some t \<and> t \<noteq> [] \<and> jwt_verify d t (JWT_SECRET d) now = Inr p \<and>
    User_findById (jwt_id p) db = Some u \<and> \<not> (\<exists>r. role u = Some r \<and> r \<in> set roles) \<longrightarrow>
      protect_then_restrictTo d now db roles req =
        respond 403 (error_json ''You do not have permission to perform this action'')) \<and>
   (bearer_token req = Some t \<and> t \<noteq> [] \<and> jwt_verify d t (JWT_SECRET d) now = Inr p \<and>
    User_findById (jwt_id p) db = Some u \<and> (\<exists>r. role u = Some r \<and> r \<in> set roles) \<longrightarrow>
      protect_then_restrictTo d now db roles req = Next (req\<lparr> req_user := Some u \<rparr>))"
proof (intro conjI impI)
  assume "headers_authorization req = None \<or> bearer_token req = None \<or> bearer_token req = Some []"
  then have "bearer_token req = None \<or> bearer_token req = Some []"
    using bearer_token_no_header [of req] by blast
  then show "protect_then_restrictTo d now db roles req =
      respond 401 (error_json ''You are not logged in! Please log in to get access.'')"
    by (intro guard_after_response protect_no_token)
next
  assume "bearer_token req = Some t \<and> t \<noteq> [] \<and> jwt_verify d t (JWT_SECRET d) now = Inl e"
  then show "protect_then_restrictTo d now db roles req = respond 401 (error_json ''Invalid token'')"
    by (intro guard_after_response protect_invalid [of req t d now e]) simp_all
next
  assume "bearer_token req = Some t \<and> t \<noteq> [] \<and> jwt_verify d t (JWT_SECRET d) now = Inr p \<and>
    User_findById (jwt_id p) db = None"
  then show "protect_then_restrictTo d now db roles req =
        respond 401 (error_json ''The user belonging to this token no longer exists.'')"
    by (intro guard_after_response protect_stale [of req t d now p]) simp_all
next
  assume a: "bearer_token req = Some t \<and> t \<noteq> [] \<and> jwt_verify d t (JWT_SECRET d) now = Inr p \<and>
    User_findById (jwt_id p) db = Some u \<and> \<not> (\<exists>r. role u = Some r \<and> r \<in> set roles)"
  then have "protect d now db req = Next (req\<lparr> req_user := Some u \<rparr>)"
    by (intro protect_grants [of req t d now p]) simp_all
  then have "protect_then_restrictTo d now db roles req = restrictTo roles (req\<lparr> req_user := Some u \<rparr>)"
    by (rule guard_after_next)
  with a show "protect_then_restrictTo d now db roles req =
        respond 403 (error_json ''You do not have permission to perform this action'')"
    by (simp only: restrictTo_attached if_False)
next
  assume a: "bearer_token req = Some t \<and> t \<noteq> [] \<and> jwt_verify d t (JWT_SECRET d) now = Inr p \<and>
    User_findById (jwt_id p) db = Some u \<and> (\<exists>r. role u = Some r \<and> r \<in> set roles)"
  then have "protect d now db req = Next (req\<lparr> req_user := Some u \<rparr>)"
    by (intro protect_grants [of req t d now p]) simp_all
  then have "protect_then_restrictTo d now db roles req = restrictTo roles (req\<lparr> req_user := Some u \<rparr>)"
    by (rule guard_after_next)
  with a show "protect_then_restrictTo d now db roles req = Next (req\<lparr> req_user := Some u \<rparr>)"
    by (simp only: restrictTo_attached if_True)
qed

text \<open>
  One request for each of the five outcomes, on the sample store: no header,
  an expired token, an empty store, the allow-list \<open>admin\<close>, and an allow-list
  with \<open>student\<close>.
\<close>

theorem access_guard_order_witness:
  "protect_then_restrictTo sample_deps 120 [alice] [''student'']
      (sample_request\<lparr> headers_authorization := None \<rparr>) =
     respond 401 (error_json ''You are not logged in! Please log in to get access.'') \<and>
   protect_then_restrictTo sample_deps 160 [alice] [''student''] sample_request =
     respond 401 (error_json ''Invalid token'') \<and>
   protect_then_restrictTo sample_deps 120 [] [''student''] sample_request =
     respond 401 (error_json ''The user belonging to this token no longer exists.'') \<and>
   protect_then_restrictTo sample_deps 120 [alice] [''admin''] sample_request =
     respond 403 (error_json ''You do not have permission to perform this action'') \<and>
   protect_then_restrictTo sample_deps 120 [alice] [''student'', ''admin''] sample_request =
     Next (sample_request\<lparr> req_user := Some alice \<rparr>)"
proof -
  have tok: "bearer_token sample_request = Some ''tok''" "''tok'' \<noteq> []"
    by (simp_all add: bearer_token_def sample_request_def startsWith_def at_index_def)
  have expired:
    "jwt_verify sample_deps ''tok'' (JWT_SECRET sample_deps) 160 = Inl InvalidTokenError"
    by (simp add: jwt_verify_def sample_deps_def sample_payload_def)
  have valid: "jwt_verify sample_deps ''tok'' (JWT_SECRET sample_deps) 120 = Inr sample_payload"
    by (simp add: jwt_verify_def sample_deps_def sample_payload_def)
  have gone: "User_findById (jwt_id sample_payload) [] = None"
    by (simp add: User_findById_def sample_payload_def)
  have found: "User_findById (jwt_id sample_payload) [alice] = Some alice"
    by (simp add: User_findById_def sample_payload_def alice_def)
  have not_admin: "\<not> (\<exists>r. role alice = Some r \<and> r \<in> set [''admin''])"
    by (simp add: alice_def)
  have student: "\<exists>r. role alice = Some r \<and> r \<in> set [''student'', ''admin'']"
    by (simp add: alice_def)
  have c1: "protect_then_restrictTo sample_deps 120 [alice] [''student'']
      (sample_request\<lparr> headers_authorization := None \<rparr>) =
     respond 401 (error_json ''You are not logged in! Please log in to get access.'')"
    using access_guard_order
      [of "sample_request\<lparr> headers_authorization := None \<rparr>" sample_deps 120 "[alice]"
        "[''student'']"]
    by simp
  have c2: "protect_then_restrictTo sample_deps 160 [alice] [''student''] sample_request =
     respond 401 (error_json ''Invalid token'')"
    using access_guard_order
      [of sample_request sample_deps 160 "[alice]" "[''student'']" "''tok''" InvalidTokenError]
      tok expired
    by blast
  have c3: "protect_then_restrictTo sample_deps 120 [] [''student''] sample_request =
     respond 401 (error_json ''The user belonging to this token no longer exists.'')"
    using access_guard_order
      [of sample_request sample_deps 120 "[]" "[''student'']" "''tok''" _ sample_payload]
      tok valid gone
    by blast
  have c4: "protect_then_restrictTo sample_deps 120 [alice] [''admin''] sample_request =
     respond 403 (error_json ''You do not have permission to perform this action'')"
    using access_guard_order
      [of sample_request sample_deps 120 "[alice]" "[''admin'']" "''tok''" _ sample_payload alice]
      tok valid found not_admin
    by blast
  have c5: "protect_then_restrictTo sample_deps 120 [alice] [''student'', ''admin''] sample_request =
     Next (sample_request\<lparr> req_user := Some alice \<rparr>)"
    using access_guard_order
      [of sample_request sample_deps 120 "[alice]" "[''student'', ''admin'']" "''tok''" _
        sample_payload alice]
      tok valid found student
    by blast
  from c1 c2 c3 c4 c5 show ?thesis by blast
qed

section \<open>Token service\<close>

text \<open>
  Claim C1. Under a configuration with a secret and a lifetime, issuing a
  token for an identity id returns a token; the token verifies, and yields
  the payload with that id, at every clock reading before issue time plus the
  configured time-to-live; at every reading from that instant on,
  verification fails with the one error kind \<open>InvalidTokenError\<close>. A request
  that carries the token as its bearer token is accordingly resolved to that
  id by the guard before the expiry, and answered 401 "Invalid token" from
  the expiry on. The serialisation is a parameter of the token service: the
  statement is for a codec that decodes the issued token to the payload and
  signature it was encoded from.
\<close>

theorem signToken_verify_until_expiry:
  assumes "JWT_SECRET d \<noteq> []" and "JWT_EXPIRE d = Some ttl"
    and "p = \<lparr> jwt_id = Some i, jwt_iat = t0, jwt_exp = t0 + ttl \<rparr>"
    and "jwt_decode d (jwt_encode d p (jwt_mac d (JWT_SECRET d) p))
           = Some (p, jwt_mac d (JWT_SECRET d) p)"
  shows "\<exists>tok. signToken d t0 (Some i) = Inr tok \<and>
           (now < t0 + ttl \<longrightarrow>
              jwt_verify d tok (JWT_SECRET d) now = Inr p \<and> jwt_id p = Some i) \<and>
           (t0 + ttl \<le> now \<longrightarrow>
              jwt_verify d tok (JWT_SECRET d) now = Inl InvalidTokenError) \<and>
           (bearer_token req = Some tok \<and> tok \<noteq> [] \<longrightarrow>
              (now < t0 + ttl \<longrightarrow>
                 protect d now db req =
                   (case User_findById (Some i) db of
                      None \<Rightarrow>
                        respond 401
                          (error_json ''The user belonging to this token no longer exists.'')
                    | Some u \<Rightarrow> Next (req\<lparr> req_user := Some u \<rparr>))) \<and>
              (t0 + ttl \<le> now \<longrightarrow>
                 protect d now db req = respond 401 (error_json ''Invalid token'')))"
proof -
  let ?tok = "jwt_encode d p (jwt_mac d (JWT_SECRET d) p)"
  have tok: "signToken d t0 (Some i) = Inr ?tok"
    unfolding assms(3) using assms(1,2) by (simp add: signToken_def jwt_sign_def Let_def)
  have ex: "jwt_exp p = t0 + ttl" and i: "jwt_id p = Some i"
    unfolding assms(3) by simp_all
  have before: "jwt_verify d ?tok (JWT_SECRET d) now = Inr p" if "now < t0 + ttl"
    using assms(1,4) ex that by (simp add: jwt_verify_def)
  have after: "jwt_verify d ?tok (JWT_SECRET d) now = Inl InvalidTokenError"
    if "t0 + ttl \<le> now"
    using assms(1,4) ex that by (simp add: jwt_verify_def)
  have guard_before: "protect d now db req =
      (case User_findById (Some i) db of
         None \<Rightarrow> respond 401 (error_json ''The user belonging to this token no longer exists.'')
       | Some u \<Rightarrow> Next (req\<lparr> req_user := Some u \<rparr>))"
    if "bearer_token req = Some ?tok" "?tok \<noteq> []" "now < t0 + ttl"
  proof (cases "User_findById (Some i) db")
    case None
    then have "User_findById (jwt_id p) db = None" by (simp add: i)
    from protect_stale [OF that(1,2) before [OF that(3)] this] None show ?thesis by simp
  next
    case (Some u)
    then have "User_findById (jwt_id p) db = Some u" by (simp add: i)
    from protect_grants [OF that(1,2) before [OF that(3)] this] Some show ?thesis by simp
  qed
  have guard_after: "protect d now db req = respond 401 (error_json ''Invalid token'')"
    if "bearer_token req = Some ?tok" "?tok \<noteq> []" "t0 + ttl \<le> now"
    using protect_invalid [OF that(1,2) after [OF that(3)]] .
  from tok before after i guard_before guard_after show ?thesis by blast
qed

text \<open>
  The sample configuration at issue time 100 with a lifetime of 60: the token
  is issued, verifies at 159 and is refused at 160, by the service and by the
  guard.
\<close>

theorem signToken_verify_until_expiry_witness:
  "signToken sample_deps 100 (Some ''u1'') = Inr ''tok'' \<and>
   jwt_verify sample_deps ''tok'' (JWT_SECRET sample_deps) 159 = Inr sample_payload \<and>
   jwt_id sample_payload = Some ''u1'' \<and>
   jwt_verify sample_deps ''tok'' (JWT_SECRET sample_deps) 160 = Inl InvalidTokenError \<and>
   protect sample_deps 159 [alice] sample_request =
     Next (sample_request\<lparr> req_user := Some alice \<rparr>) \<and>
   protect sample_deps 160 [alice] sample_request = respond 401 (error_json ''Invalid token'')"
proof -
  have secret: "JWT_SECRET sample_deps \<noteq> []" and ttl: "JWT_EXPIRE sample_deps = Some 60"
    by (simp_all add: sample_deps_def)
  have p: "sample_payload = \<lparr> jwt_id = Some ''u1'', jwt_iat = 100, jwt_exp = 100 + 60 \<rparr>"
    by (simp add: sample_payload_def)
  have codec: "jwt_decode sample_deps
      (jwt_encode sample_deps sample_payload
         (jwt_mac sample_deps (JWT_SECRET sample_deps) sample_payload))
      = Some (sample_payload, jwt_mac sample_deps (JWT_SECRET sample_deps) sample_payload)"
    by (simp add: sample_deps_def)
  have issued: "signToken sample_deps 100 (Some ''u1'') = Inr ''tok''"
    by (simp add: signToken_def jwt_sign_def sample_deps_def Let_def)
  have bearer: "bearer_token sample_request = Some ''tok''" "''tok'' \<noteq> []"
    by (simp_all add: bearer_token_def sample_request_def startsWith_def at_index_def)
  have found: "User_findById (Some ''u1'') [alice] = Some alice"
    by (simp add: User_findById_def alice_def)
  from signToken_verify_until_expiry [OF secret ttl p codec, of 159 sample_request "[alice]"]
    issued bearer
  have "jwt_verify sample_deps ''tok'' (JWT_SECRET sample_deps) 159 = Inr sample_payload"
    "jwt_id sample_payload = Some ''u1''"
    "protect sample_deps 159 [alice] sample_request =
      (case User_findById (Some ''u1'') [alice] of
         None \<Rightarrow> respond 401 (error_json ''The user belonging to this token no longer exists.'')
       | Some u \<Rightarrow> Next (sample_request\<lparr> req_user := Some u \<rparr>))"
    by auto
  moreover
  from signToken_verify_until_expiry [OF secret ttl p codec, of 160 sample_request "[alice]"]
    issued bearer
  have "jwt_verify sample_deps ''tok'' (JWT_SECRET sample_deps) 160 = Inl InvalidTokenError"
    "protect sample_deps 160 [alice] sample_request = respond 401 (error_json ''Invalid token'')"
    by auto
  ultimately show ?thesis using issued by (simp add: found)
qed

section \<open>Login\<close>

text \<open>
  The two failures the handler answers alike: an email with no record, and a
  record whose password comparison returns false.
\<close>

lemma login_generic_failure:
  assumes "body req1 = Some b1" and "b1 ''email'' = Some e1" and "b1 ''password'' = Some p1"
    and "e1 \<noteq> []" and "p1 \<noteq> []"
    and "User_findOne (by_email (Some e1)) db = Some u"
    and "comparePassword d u p1 = Inr False"
    and "body req2 = Some b2" and "b2 ''email'' = Some e2" and "b2 ''password'' = Some p2"
    and "e2 \<noteq> []" and "p2 \<noteq> []"
    and "User_findOne (by_email (Some e2)) db = None"
  shows "login d now1 db req1 = respond 401 (error_json ''Incorrect email or password'') \<and>
         login d now2 db req2 = login d now1 db req1"
proof -
  have wrong_password:
    "login d now1 db req1 = respond 401 (error_json ''Incorrect email or password'')"
    using assms(1-7) by (simp add: login_def)
  have no_identity:
    "login d now2 db req2 = respond 401 (error_json ''Incorrect email or password'')"
    using assms(8-13) by (simp add: login_def)
  from wrong_password no_identity show ?thesis by simp
qed

text \<open>
  A comparison that throws ends in the \<^verbatim>\<open>catch\<close> block instead: the
  login answers 400 with the thrown message.
\<close>

lemma login_comparison_throws:
  assumes "body req = Some b" and "b ''email'' = Some e" and "b ''password'' = Some pw"
    and "e \<noteq> []" and "pw \<noteq> []"
    and "User_findOne (by_email (Some e)) db = Some u"
    and "comparePassword d u pw = Inl msg"
  shows "login d now db req = respond 400 (error_json msg)"
  using assms by (simp add: login_def)


section \<open>Password reset\<close>

lemma resetPassword_not_found:
  assumes "User_findOne (by_passwordReset (sha256 d (params_token req)) now) db = None"
  shows "resetPassword d now db req =
           (respond 400 (error_json ''Invalid or expired reset token''), db)"
  using assms by (simp add: resetPassword_def Let_def)


lemma resetPassword_found:
  assumes "User_findOne (by_passwordReset (sha256 d (params_token req)) now) db = Some u"
    and "body req = Some b"
    and "validate d (u\<lparr> password := b ''password'', passwordResetToken := None,
                         passwordResetExpires := None \<rparr>) = None"
  shows "resetPassword d now db req =
           (respond 200 (success_json ''Password reset successfully''),
            map (\<lambda>v. if u_id v = u_id u
                      then u\<lparr> password := map_option (hashPassword d) (b ''password''),
                             passwordResetToken := None,
                             passwordResetExpires := None \<rparr>
                      else v) db)"
  using assms by (simp add: resetPassword_def user_save_def Let_def)

text \<open>
  Claim C4. Let an identity hold a live reset ticket, the only record of the
  store with that ticket hash, and let the schema accept the new password.
  The first reset with the matching raw token answers 200 and, in one update
  of the store, sets the hashed new password and clears both ticket fields;
  every later reset with the same raw token, at any time and with any body,
  answers 400 "Invalid or expired reset token" and leaves the store as it is.
\<close>

theorem resetPassword_single_use:
  assumes holder: "u \<in> set db"
    and live: "by_passwordReset (sha256 d (params_token req)) now u"
    and only: "\<forall>v\<in>set db. passwordResetToken v = Some (sha256 d (params_token req)) \<longrightarrow> v = u"
    and b: "body req = Some b"
    and valid: "validate d (u\<lparr> password := b ''password'', passwordResetToken := None,
                               passwordResetExpires := None \<rparr>) = None"
    and db': "db' = map (\<lambda>v. if u_id v = u_id u
                              then u\<lparr> password := map_option (hashPassword d) (b ''password''),
                                     passwordResetToken := None,
                                     passwordResetExpires := None \<rparr>
                              else v) db"
  shows "resetPassword d now db req =
           (respond 200 (success_json ''Password reset successfully''), db') \<and>
         (\<forall>now2 req2. params_token req2 = params_token req \<longrightarrow>
            resetPassword d now2 db' req2 =
              (respond 400 (error_json ''Invalid or expired reset token''), db'))"
proof -
  let ?h = "sha256 d (params_token req)"
  let ?u' = "u\<lparr> password := map_option (hashPassword d) (b ''password''),
               passwordResetToken := None, passwordResetExpires := None \<rparr>"
  have only': "\<forall>v\<in>set db. by_passwordReset ?h now v \<longrightarrow> v = u"
    using only unfolding by_passwordReset_def by blast
  have found: "User_findOne (by_passwordReset ?h now) db = Some u"
    unfolding User_findOne_def by (rule find_only [OF holder live only'])
  have first: "resetPassword d now db req =
      (respond 200 (success_json ''Password reset successfully''), db')"
    unfolding db' by (rule resetPassword_found [OF found b valid])
  have gone: "User_findOne (by_passwordReset ?h now2) db' = None" for now2
    unfolding User_findOne_def db'
  proof (rule find_map_none)
    fix v assume v: "v \<in> set db"
    show "\<not> by_passwordReset ?h now2 (if u_id v = u_id u then ?u' else v)"
    proof (cases "u_id v = u_id u")
      case True
      then show ?thesis by (simp add: by_passwordReset_def)
    next
      case False
      then have neq: "v \<noteq> u" by blast
      from only v have "passwordResetToken v = Some ?h \<longrightarrow> v = u" by (rule bspec)
      with neq have "passwordResetToken v \<noteq> Some ?h" by blast
      with False show ?thesis by (simp add: by_passwordReset_def)
    qed
  qed
  have second: "resetPassword d now2 db' req2 =
      (respond 400 (error_json ''Invalid or expired reset token''), db')"
    if same: "params_token req2 = params_token req" for now2 req2
  proof (rule resetPassword_not_found)
    show "User_findOne (by_passwordReset (sha256 d (params_token req2)) now2) db' = None"
      unfolding same by (rule gone)
  qed
  from first second show ?thesis by blast
qed

text \<open>
  On the sample store: Alice resets with the token \<open>r4nd\<close> at time 1000, and the
  same token is refused at time 1001.
\<close>

theorem resetPassword_single_use_witness:
  "resetPassword sample_deps 1000 [alice]
      (sample_request\<lparr> body := Some [''password'' \<mapsto> ''NewSecret-1''] \<rparr>) =
     (respond 200 (success_json ''Password reset successfully''),
      [alice\<lparr> password := Some ''bcrypt:NewSecret-1'', passwordResetToken := None,
              passwordResetExpires := None \<rparr>]) \<and>
   resetPassword sample_deps 1001
      [alice\<lparr> password := Some ''bcrypt:NewSecret-1'', passwordResetToken := None,
              passwordResetExpires := None \<rparr>]
      (sample_request\<lparr> body := Some [''password'' \<mapsto> ''Another-2''] \<rparr>) =
     (respond 400 (error_json ''Invalid or expired reset token''),
      [alice\<lparr> password := Some ''bcrypt:NewSecret-1'', passwordResetToken := None,
              passwordResetExpires := None \<rparr>])"
proof -
  let ?req = "sample_request\<lparr> body := Some [''password'' \<mapsto> ''NewSecret-1''] \<rparr>"
  let ?req2 = "sample_request\<lparr> body := Some [''password'' \<mapsto> ''Another-2''] \<rparr>"
  let ?b = "[''password'' \<mapsto> ''NewSecret-1'']"
  let ?db' = "[alice\<lparr> password := Some ''bcrypt:NewSecret-1'', passwordResetToken := None,
              passwordResetExpires := None \<rparr>]"
  have holder: "alice \<in> set [alice]" by simp
  have live: "by_passwordReset (sha256 sample_deps (params_token ?req)) 1000 alice"
    by (simp add: by_passwordReset_def sample_deps_def sample_request_def alice_def)
  have only: "\<forall>v\<in>set [alice].
      passwordResetToken v = Some (sha256 sample_deps (params_token ?req)) \<longrightarrow> v = alice"
    by simp
  have b: "body ?req = Some ?b" by simp
  have valid: "validate sample_deps (alice\<lparr> password := ?b ''password'',
      passwordResetToken := None, passwordResetExpires := None \<rparr>) = None"
    by (simp add: sample_deps_def alice_def)
  have db': "?db' = map (\<lambda>v. if u_id v = u_id alice
                              then alice\<lparr> password := map_option (hashPassword sample_deps) (?b ''password''),
                                     passwordResetToken := None,
                                     passwordResetExpires := None \<rparr>
                              else v) [alice]"
    by (simp add: sample_deps_def)
  have same: "params_token ?req2 = params_token ?req" by simp
  from resetPassword_single_use [OF holder live only b valid db'] same
  show ?thesis by blast
qed

section \<open>Registration\<close>

text \<open>
  Claim C5. When the store holds an identity with the email of a registration
  request, the request answers 400 "Email already registered" and the store
  is returned as it was: no record is added and none is changed.
\<close>

theorem signup_duplicate_email:
  assumes "body req = Some b" and "b ''email'' = Some e"
    and "u \<in> set db" and "email u = Some e"
  shows "signup d now db req = (respond 400 (error_json ''Email already registered''), db)"
proof -
  have "by_email (Some e) u" using assms(4) by (simp add: by_email_def)
  with assms(3) have "User_findOne (by_email (Some e)) db \<noteq> None"
    unfolding User_findOne_def find_None_iff by blast
  then obtain x where "User_findOne (by_email (Some e)) db = Some x" by blast
  with assms(1,2) show ?thesis by (simp add: signup_def)
qed

text \<open>Registering Alice's email again on the sample store.\<close>

theorem signup_duplicate_email_witness:
  "signup sample_deps 100 [alice] sample_request =
     (respond 400 (error_json ''Email already registered''), [alice])"
proof -
  let ?b = "[''email'' \<mapsto> ''alice@example.com'', ''password'' \<mapsto> ''Wrong-1'']"
  have b: "body sample_request = Some ?b" by (simp add: sample_request_def)
  have e: "?b ''email'' = Some ''alice@example.com''" by simp
  have u: "alice \<in> set [alice]" by simp
  have m: "email alice = Some ''alice@example.com''" by (simp add: alice_def)
  from signup_duplicate_email [OF b e u m] show ?thesis .
qed

lemma User_create_Inr:
  assumes "User_create d db doc = Inr (u, db')"
  shows "u = doc\<lparr> u_id := new_id d db, password := map_option (hashPassword d) (password doc) \<rparr>
         \<and> db' = db @ [u]"
proof (cases "validate d doc")
  case (Some msg)
  with assms show ?thesis by (simp add: User_create_def)
next
  case None
  show ?thesis
  proof (cases "email doc \<in> set (map email db)")
    case True
    with None assms show ?thesis by (simp add: User_create_def)
  next
    case False
    with None assms show ?thesis by (auto simp: User_create_def Let_def)
  qed
qed

lemma signup_created:
  assumes "signup d now db req = (Responded r, db')" and "statusCode r = 201"
  shows "\<exists>b u tok. body req = Some b \<and> User_create d db (signup_document b) = Inr (u, db') \<and>
           signToken d now (Some (u_id u)) = Inr tok \<and>
           json r =
             JObj [(''status'', JStr ''success''),
                   (''token'', JStr tok),
                   (''data'',
                     JObj [(''user'',
                       JObj [(''id'', JStr (u_id u)),
                             (''fullName'', of_opt (fullName u)),
                             (''email'', of_opt (email u)),
                             (''role'', of_opt (role u)),
                             (''isEmailVerified'', JBool (isEmailVerified u))])])]"
proof (cases "body req")
  case None
  with assms show ?thesis by (auto simp: signup_def respond_def)
next
  case (Some b)
  show ?thesis
  proof (cases "User_findOne (by_email (b ''email'')) db")
    case (Some existingUser)
    with \<open>body req = Some b\<close> assms show ?thesis by (auto simp: signup_def respond_def)
  next
    case None
    show ?thesis
    proof (cases "User_create d db (signup_document b)")
      case (Inl msg)
      with None \<open>body req = Some b\<close> assms show ?thesis by (auto simp: signup_def respond_def)
    next
      case (Inr created)
      obtain u db2 where c: "created = (u, db2)" by (cases created)
      show ?thesis
      proof (cases "signToken d now (Some (u_id u))")
        case (Inl msg)
        with Inr c None \<open>body req = Some b\<close> assms show ?thesis
          by (auto simp: signup_def respond_def)
      next
        case tok: (Inr tok)
        with Inr c None \<open>body req = Some b\<close> assms(1)
        have "r = \<lparr> statusCode = 201, json =
               JObj [(''status'', JStr ''success''),
                     (''token'', JStr tok),
                     (''data'',
                       JObj [(''user'',
                         JObj [(''id'', JStr (u_id u)),
                               (''fullName'', of_opt (fullName u)),
                               (''email'', of_opt (email u)),
                               (''role'', of_opt (role u)),
                               (''isEmailVerified'', JBool (isEmailVerified u))])])] \<rparr>"
          and "db2 = db'"
          by (auto simp: signup_def respond_def)
        with Inr c tok \<open>body req = Some b\<close> show ?thesis by simp
      qed
    qed
  qed
qed

lemma signup_bob:
  "signup sample_deps 100 [alice] bob_request =
     (Responded \<lparr> statusCode = 201, json =
        JObj [(''status'', JStr ''success''),
              (''token'', JStr ''tok''),
              (''data'',
                JObj [(''user'',
                  JObj [(''id'', JStr ''u11''),
                        (''fullName'', JStr ''Bob''),
                        (''email'', JStr ''bob@example.com''),
                        (''role'', JStr ''student''),
                        (''isEmailVerified'', JBool True)])])] \<rparr>,
      [alice, bob])"
  by (simp add: signup_def sample_deps_def alice_def bob_def bob_request_def User_findOne_def
      by_email_def User_create_def signup_document_def signToken_def jwt_sign_def respond_def
      of_opt_def Let_def)

text \<open>
  Claim C7. The payload of a successful registration (status 201) is the
  envelope with the token issued for the new id and, under \<open>data.user\<close>, the
  five fields id, fullName, email, role and isEmailVerified, taken from the
  new id and the request's fullName, email and role. No key of the payload,
  at any depth, is \<open>password\<close>, and no value is read from the password or
  its hash.
\<close>

theorem signup_payload_public:
  assumes "signup d now db req = (Responded r, db')" and "statusCode r = 201"
  shows "\<exists>b tok. body req = Some b \<and>
           signToken d now (Some (new_id d db)) = Inr tok \<and>
           json r =
             JObj [(''status'', JStr ''success''),
                   (''token'', JStr tok),
                   (''data'',
                     JObj [(''user'',
                       JObj [(''id'', JStr (new_id d db)),
                             (''fullName'', of_opt (b ''fullName'')),
                             (''email'', of_opt (b ''email'')),
                             (''role'', of_opt (b ''role'')),
                             (''isEmailVerified'', JBool True)])])] \<and>
           json_keys (json r) =
             [''status'', ''token'', ''data'', ''user'', ''id'', ''fullName'', ''email'', ''role'',
              ''isEmailVerified''] \<and>
           ''password'' \<notin> set (json_keys (json r))"
proof -
  from signup_created [OF assms] obtain b u tok where b: "body req = Some b"
    and c: "User_create d db (signup_document b) = Inr (u, db')"
    and t: "signToken d now (Some (u_id u)) = Inr tok"
    and j: "json r =
             JObj [(''status'', JStr ''success''),
                   (''token'', JStr tok),
                   (''data'',
                     JObj [(''user'',
                       JObj [(''id'', JStr (u_id u)),
                             (''fullName'', of_opt (fullName u)),
                             (''email'', of_opt (email u)),
                             (''role'', of_opt (role u)),
                             (''isEmailVerified'', JBool (isEmailVerified u))])])]"
    by blast
  from User_create_Inr [OF c]
  have u: "u = (signup_document b)\<lparr> u_id := new_id d db,
              password := map_option (hashPassword d) (password (signup_document b)) \<rparr>"
    by simp
  have fields: "u_id u = new_id d db" "fullName u = b ''fullName''" "email u = b ''email''"
    "role u = b ''role''" "isEmailVerified u = True"
    unfolding u by (simp_all add: signup_document_def)
  have keys: "json_keys (json r) =
      [''status'', ''token'', ''data'', ''user'', ''id'', ''fullName'', ''email'', ''role'',
       ''isEmailVerified'']"
    unfolding j by (simp add: of_opt_def split: option.splits)
  have "''password'' \<notin> set (json_keys (json r))"
    unfolding keys by simp
  with b t j fields keys show ?thesis by simp
qed

text \<open>Registering Bob on the sample store.\<close>

theorem signup_payload_public_witness:
  "\<exists>r db'. signup sample_deps 100 [alice] bob_request = (Responded r, db') \<and>
      statusCode r = 201 \<and> ''password'' \<notin> set (json_keys (json r))"
proof -
  obtain r where run: "signup sample_deps 100 [alice] bob_request = (Responded r, [alice, bob])"
    and st: "statusCode r = 201"
    using signup_bob by simp
  from signup_payload_public [OF run st] have "''password'' \<notin> set (json_keys (json r))"
    by blast
  with run st show ?thesis by blast
qed

text \<open>
  Claim C8. A successful registration (status 201) appends one record to the
  store, with the request's email and the verification flag already true; the
  record holds no email-verification ticket, so none was issued or consumed.
\<close>

theorem signup_marks_verified:
  assumes "signup d now db req = (Responded r, db')" and "statusCode r = 201"
  shows "\<exists>b u. body req = Some b \<and> db' = db @ [u] \<and> email u = b ''email'' \<and>
           isEmailVerified u \<and> emailVerificationToken u = None \<and>
           emailVerificationExpires u = None"
proof -
  from signup_created [OF assms] obtain b u where b: "body req = Some b"
    and c: "User_create d db (signup_document b) = Inr (u, db')"
    by blast
  from User_create_Inr [OF c]
  have u: "u = (signup_document b)\<lparr> u_id := new_id d db,
              password := map_option (hashPassword d) (password (signup_document b)) \<rparr>"
    and db': "db' = db @ [u]"
    by simp_all
  have "email u = b ''email''" "isEmailVerified u" "emailVerificationToken u = None"
    "emailVerificationExpires u = None"
    unfolding u by (simp_all add: signup_document_def)
  with b db' show ?thesis by blast
qed

text \<open>Bob's record is stored verified.\<close>

theorem signup_marks_verified_witness:
  "\<exists>r u. signup sample_deps 100 [alice] bob_request = (Responded r, [alice] @ [u]) \<and>
      statusCode r = 201 \<and> email u = Some ''bob@example.com'' \<and> isEmailVerified u \<and>
      emailVerificationToken u = None"
proof -
  obtain r where run: "signup sample_deps 100 [alice] bob_request = (Responded r, [alice, bob])"
    and st: "statusCode r = 201"
    using signup_bob by simp
  from signup_marks_verified [OF run st] obtain b u where
    "body bob_request = Some b" "[alice, bob] = [alice] @ [u]" "email u = b ''email''"
    "isEmailVerified u" "emailVerificationToken u = None"
    by blast
  moreover from this have "u = bob" by simp
  moreover have "email bob = Some ''bob@example.com''" by (simp add: bob_def)
  ultimately show ?thesis using run st by auto
qed

section \<open>Forgotten password\<close>

lemma forgotPassword_saved:
  assumes "body req = Some b"
    and "User_findOne (by_email (b ''email'')) db = Some u"
    and "validate d (u\<lparr> passwordResetToken := Some (sha256 d rnd),
                         passwordResetExpires := Some (now + reset_ttl d) \<rparr>) = None"
  shows "forgotPassword d now rnd db req =
           ((case sendPasswordResetEmail d (b ''email'') rnd of
               Some msg \<Rightarrow> respond 400 (error_json msg)
             | None \<Rightarrow> respond 200 (success_json ''Password reset link sent to email'')),
            map (\<lambda>v. if u_id v = u_id u
                      then u\<lparr> passwordResetToken := Some (sha256 d rnd),
                             passwordResetExpires := Some (now + reset_ttl d) \<rparr>
                      else v) db)"
  using assms
  by (simp add: forgotPassword_def generatePasswordResetToken_def user_save_def Let_def
      split: option.splits)

text \<open>
  Claim C6, as amended. For a forgot-password request whose email has an
  identity and whose ticket is saved: when the awaited send is rejected with
  an error, the request answers 400 with that error's message; when the send
  returns, it answers 200 "Password reset link sent to email". In both cases
  the store keeps the saved ticket.
\<close>

theorem forgotPassword_send_outcome:
  assumes "body req = Some b"
    and "User_findOne (by_email (b ''email'')) db = Some u"
    and "validate d (u\<lparr> passwordResetToken := Some (sha256 d rnd),
                         passwordResetExpires := Some (now + reset_ttl d) \<rparr>) = None"
    and "db' = map (\<lambda>v. if u_id v = u_id u
                         then u\<lparr> passwordResetToken := Some (sha256 d rnd),
                                passwordResetExpires := Some (now + reset_ttl d) \<rparr>
                         else v) db"
  shows "(\<forall>msg. sendPasswordResetEmail d (b ''email'') rnd = Some msg \<longrightarrow>
            forgotPassword d now rnd db req = (respond 400 (error_json msg), db')) \<and>
         (sendPasswordResetEmail d (b ''email'') rnd = None \<longrightarrow>
            forgotPassword d now rnd db req =
              (respond 200 (success_json ''Password reset link sent to email''), db'))"
  unfolding assms(4) forgotPassword_saved [OF assms(1,2,3)] by simp

text \<open>
  Claim C6 as stated fails: with an email service whose send is rejected, the
  request for Alice's email saves the ticket and answers 400 with the send's
  error, not a success envelope.
\<close>

theorem forgotPassword_send_failure_counterexample:
  "sendPasswordResetEmail smtp_down_deps (Some ''alice@example.com'') ''n3w''
     = Some ''connect ECONNREFUSED'' \<and>
   forgotPassword smtp_down_deps 1000 ''n3w'' [alice] sample_request =
     (respond 400 (error_json ''connect ECONNREFUSED''),
      [alice\<lparr> passwordResetToken := Some ''sha:n3w'', passwordResetExpires := Some 1600 \<rparr>])"
  by (simp add: forgotPassword_def smtp_down_deps_def sample_deps_def alice_def sample_request_def
      User_findOne_def by_email_def generatePasswordResetToken_def user_save_def Let_def)

text \<open>
  Both outcomes on the sample store: a send that returns and a send that is
  rejected.
\<close>

theorem forgotPassword_send_outcome_witness:
  "forgotPassword sample_deps 1000 ''n3w'' [alice] sample_request =
     (respond 200 (success_json ''Password reset link sent to email''),
      [alice\<lparr> passwordResetToken := Some ''sha:n3w'', passwordResetExpires := Some 1600 \<rparr>]) \<and>
   forgotPassword smtp_down_deps 1000 ''n3w'' [alice] sample_request =
     (respond 400 (error_json ''connect ECONNREFUSED''),
      [alice\<lparr> passwordResetToken := Some ''sha:n3w'', passwordResetExpires := Some 1600 \<rparr>])"
proof -
  let ?b = "[''email'' \<mapsto> ''alice@example.com'', ''password'' \<mapsto> ''Wrong-1'']"
  let ?db' = "[alice\<lparr> passwordResetToken := Some ''sha:n3w'', passwordResetExpires := Some 1600 \<rparr>]"
  have b: "body sample_request = Some ?b" by (simp add: sample_request_def)
  have f: "User_findOne (by_email (?b ''email'')) [alice] = Some alice"
    by (simp add: User_findOne_def by_email_def alice_def)
  have v1: "validate sample_deps (alice\<lparr> passwordResetToken := Some (sha256 sample_deps ''n3w''),
      passwordResetExpires := Some (1000 + reset_ttl sample_deps) \<rparr>) = None"
    by (simp add: sample_deps_def alice_def)
  have v2: "validate smtp_down_deps (alice\<lparr> passwordResetToken := Some (sha256 smtp_down_deps ''n3w''),
      passwordResetExpires := Some (1000 + reset_ttl smtp_down_deps) \<rparr>) = None"
    by (simp add: smtp_down_deps_def sample_deps_def alice_def)
  have d1: "?db' = map (\<lambda>v. if u_id v = u_id alice
                         then alice\<lparr> passwordResetToken := Some (sha256 sample_deps ''n3w''),
                                passwordResetExpires := Some (1000 + reset_ttl sample_deps) \<rparr>
                         else v) [alice]"
    by (simp add: sample_deps_def)
  have d2: "?db' = map (\<lambda>v. if u_id v = u_id alice
                         then alice\<lparr> passwordResetToken := Some (sha256 smtp_down_deps ''n3w''),
                                passwordResetExpires := Some (1000 + reset_ttl smtp_down_deps) \<rparr>
                         else v) [alice]"
    by (simp add: smtp_down_deps_def sample_deps_def)
  have s1: "sendPasswordResetEmail sample_deps (?b ''email'') ''n3w'' = None"
    by (simp add: sample_deps_def)
  have s2: "sendPasswordResetEmail smtp_down_deps (?b ''email'') ''n3w'' = Some ''connect ECONNREFUSED''"
    by (simp add: smtp_down_deps_def sample_deps_def)
  from forgotPassword_send_outcome [OF b f v1 d1] s1
  have "forgotPassword sample_deps 1000 ''n3w'' [alice] sample_request =
     (respond 200 (success_json ''Password reset link sent to email''), ?db')"
    by blast
  moreover from forgotPassword_send_outcome [OF b f v2 d2] s2
  have "forgotPassword smtp_down_deps 1000 ''n3w'' [alice] sample_request =
     (respond 400 (error_json ''connect ECONNREFUSED''), ?db')"
    by blast
  ultimately show ?thesis by blast
qed

section \<open>Responses of the handlers\<close>

lemma envelope_error:
  "100 \<le> c \<Longrightarrow> c < 600 \<Longrightarrow> envelope_outcome (respond c (error_json m))"
  by (simp add: envelope_outcome_def respond_def error_json_def is_envelope_def)

lemma envelope_success:
  "100 \<le> c \<Longrightarrow> c < 600 \<Longrightarrow> envelope_outcome (respond c (success_json m))"
  by (simp add: envelope_outcome_def respond_def success_json_def is_envelope_def)

lemma envelope_token_data:
  "100 \<le> c \<Longrightarrow> c < 600 \<Longrightarrow>
   envelope_outcome
     (respond c (JObj [(''status'', JStr ''success''), (''token'', tok), (''data'', dat)]))"
  by (simp add: envelope_outcome_def respond_def is_envelope_def)

lemma signup_envelope: "envelope_outcome (fst (signup d now db req))"
  by (simp add: signup_def Let_def envelope_error envelope_token_data
      split: option.splits sum.splits prod.splits)

lemma verifyEmail_envelope: "envelope_outcome (fst (verifyEmail d now db req))"
  by (simp add: verifyEmail_def Let_def envelope_error envelope_success
      split: option.splits sum.splits prod.splits)

lemma forgotPassword_envelope: "envelope_outcome (fst (forgotPassword d now rnd db req))"
  by (simp add: forgotPassword_def Let_def envelope_error envelope_success
      split: option.splits sum.splits prod.splits)

lemma resetPassword_envelope: "envelope_outcome (fst (resetPassword d now db req))"
  by (simp add: resetPassword_def Let_def envelope_error envelope_success
      split: option.splits sum.splits prod.splits)

lemma login_envelope: "envelope_outcome (login d now db req)"
  by (simp add: login_def Let_def envelope_error envelope_token_data
      split: option.splits sum.splits prod.splits)

lemma envelope_not_escapes: "envelope_outcome out \<Longrightarrow> \<not> escapes out"
  by (cases out) (simp_all add: envelope_outcome_def escapes_def)

lemma protect_envelope_or_next:
  "envelope_outcome (protect d now db req) \<or>
   (\<exists>t p u. bearer_token req = Some t \<and> t \<noteq> [] \<and>
      jwt_verify d t (JWT_SECRET d) now = Inr p \<and> User_findById (jwt_id p) db = Some u \<and>
      protect d now db req = Next (req\<lparr> req_user := Some u \<rparr>))"
proof (cases "bearer_token req = None \<or> bearer_token req = Some []")
  case True
  then show ?thesis by (simp add: protect_no_token envelope_error)
next
  case False
  then obtain t where t: "bearer_token req = Some t" "t \<noteq> []" by (cases "bearer_token req") simp_all
  show ?thesis
  proof (cases "jwt_verify d t (JWT_SECRET d) now")
    case (Inl e)
    with t show ?thesis by (simp add: protect_invalid envelope_error)
  next
    case (Inr p)
    show ?thesis
    proof (cases "User_findById (jwt_id p) db")
      case None
      with t Inr show ?thesis by (simp add: protect_stale envelope_error)
    next
      case (Some u)
      with t Inr have "protect d now db req = Next (req\<lparr> req_user := Some u \<rparr>)"
        by (rule protect_grants)
      with t Inr Some show ?thesis by blast
    qed
  qed
qed

lemma protect_not_escapes: "\<not> escapes (protect d now db req)"
proof -
  from protect_envelope_or_next [of d now db req]
  consider "envelope_outcome (protect d now db req)"
    | u where "protect d now db req = Next (req\<lparr> req_user := Some u \<rparr>)"
    by blast
  then show ?thesis
  proof cases
    case 1
    then show ?thesis by (rule envelope_not_escapes)
  next
    case 2
    then show ?thesis by (simp add: escapes_def)
  qed
qed

lemma googleCallback_error:
  "err = Some msg \<Longrightarrow> googleCallback d now err user = respond 401 (error_json msg)"
  by (simp add: googleCallback_def)

lemma googleCallback_issued:
  "err = None \<Longrightarrow> signToken d now (map_option u_id user) = Inr tok \<Longrightarrow>
   googleCallback d now err user = Redirected (FRONTEND_URL d @ ''/auth/success?token='' @ tok)"
  by (simp add: googleCallback_def)

text \<open>
  Claim C9, as amended. For every store, clock and request, and whatever the
  collaborators return or throw (the store refusing a write and the token
  library refusing to sign or to verify among them), each of the handlers
  signup, verifyEmail, forgotPassword, resetPassword and login answers with
  the standard envelope and an HTTP status code, and no error leaves it.
  The guard protect passes the request on, with exactly the identity the
  verified token names attached, when the bearer token verifies and that
  identity is in the store; in every other case it answers with the
  envelope; no error leaves it. The OAuth callback answers 401 in the
  envelope with the error's message when passport reports an error; when
  passport reports none and the token is issued, it redirects to the frontend
  URL followed by \<^verbatim>\<open>/auth/success?token=\<close> and that token.
\<close>

theorem handlers_answer_in_envelope:
  "envelope_outcome (fst (signup d now db req)) \<and>
   \<not> escapes (fst (signup d now db req)) \<and>
   envelope_outcome (fst (verifyEmail d now db req)) \<and>
   \<not> escapes (fst (verifyEmail d now db req)) \<and>
   envelope_outcome (fst (forgotPassword d now rnd db req)) \<and>
   \<not> escapes (fst (forgotPassword d now rnd db req)) \<and>
   envelope_outcome (fst (resetPassword d now db req)) \<and>
   \<not> escapes (fst (resetPassword d now db req)) \<and>
   envelope_outcome (login d now db req) \<and>
   \<not> escapes (login d now db req) \<and>
   (\<forall>t p u. bearer_token req = Some t \<and> t \<noteq> [] \<and>
      jwt_verify d t (JWT_SECRET d) now = Inr p \<and> User_findById (jwt_id p) db = Some u \<longrightarrow>
      protect d now db req = Next (req\<lparr> req_user := Some u \<rparr>)) \<and>
   (\<not> (\<exists>t p u. bearer_token req = Some t \<and> t \<noteq> [] \<and>
      jwt_verify d t (JWT_SECRET d) now = Inr p \<and> User_findById (jwt_id p) db = Some u) \<longrightarrow>
      envelope_outcome (protect d now db req)) \<and>
   \<not> escapes (protect d now db req) \<and>
   (\<forall>msg. err = Some msg \<longrightarrow>
      googleCallback d now err user = respond 401 (error_json msg)) \<and>
   (\<forall>tok. err = None \<and> signToken d now (map_option u_id user) = Inr tok \<longrightarrow>
      googleCallback d now err user =
        Redirected (FRONTEND_URL d @ ''/auth/success?token='' @ tok))"
proof (intro conjI allI impI)
  fix t p u
  assume "bearer_token req = Some t \<and> t \<noteq> [] \<and>
      jwt_verify d t (JWT_SECRET d) now = Inr p \<and> User_findById (jwt_id p) db = Some u"
  then show "protect d now db req = Next (req\<lparr> req_user := Some u \<rparr>)"
    by (intro protect_grants [of req t d now p]) simp_all
next
  assume "\<not> (\<exists>t p u. bearer_token req = Some t \<and> t \<noteq> [] \<and>
      jwt_verify d t (JWT_SECRET d) now = Inr p \<and> User_findById (jwt_id p) db = Some u)"
  with protect_envelope_or_next [of d now db req]
  show "envelope_outcome (protect d now db req)" by blast
next
  fix msg assume "err = Some msg"
  then show "googleCallback d now err user = respond 401 (error_json msg)"
    by (rule googleCallback_error)
next
  fix tok assume "err = None \<and> signToken d now (map_option u_id user) = Inr tok"
  then show "googleCallback d now err user =
      Redirected (FRONTEND_URL d @ ''/auth/success?token='' @ tok)"
    by (intro googleCallback_issued) simp_all
qed (rule signup_envelope verifyEmail_envelope forgotPassword_envelope resetPassword_envelope
      login_envelope protect_not_escapes
      envelope_not_escapes [OF signup_envelope] envelope_not_escapes [OF verifyEmail_envelope]
      envelope_not_escapes [OF forgotPassword_envelope]
      envelope_not_escapes [OF resetPassword_envelope] envelope_not_escapes [OF login_envelope])+

text \<open>
  Claim C9 as stated fails. The OAuth callback of a resolved user answers with
  a redirect to the frontend that carries the token, not with the envelope;
  and with no secret configured, what \<^verbatim>\<open>signToken\<close> throws leaves the
  callback, which has no \<^verbatim>\<open>try\<close>.
\<close>

theorem googleCallback_counterexample:
  "googleCallback sample_deps 100 None (Some alice) =
     Redirected ''http://localhost:3000/auth/success?token=tok'' \<and>
   \<not> envelope_outcome (googleCallback sample_deps 100 None (Some alice)) \<and>
   googleCallback no_secret_deps 100 None (Some alice) =
     Threw ''secretOrPrivateKey must have a value'' \<and>
   escapes (googleCallback no_secret_deps 100 None (Some alice))"
  by (simp add: googleCallback_def no_secret_deps_def sample_deps_def alice_def signToken_def
      jwt_sign_def secret_message_def envelope_outcome_def escapes_def Let_def)

text \<open>
  On the sample store: a registration while no secret is configured (the
  token library throws after the record is stored), a password login on a
  record without a password (the comparison throws), a guarded request with
  a valid token, and the OAuth callback with an error and with a resolved
  user.
\<close>

theorem handlers_answer_in_envelope_witness:
  "signup no_secret_deps 100 [alice] bob_request =
     (respond 400 (error_json ''secretOrPrivateKey must have a value''), [alice, bob]) \<and>
   envelope_outcome (fst (signup no_secret_deps 100 [alice] bob_request)) \<and>
   envelope_outcome (login sample_deps 120 [alice, carol] carol_login) \<and>
   protect sample_deps 120 [alice] sample_request =
     Next (sample_request\<lparr> req_user := Some alice \<rparr>) \<and>
   googleCallback sample_deps 100 (Some ''access_denied'') None =
     respond 401 (error_json ''access_denied'') \<and>
   googleCallback sample_deps 100 None (Some alice) =
     Redirected (FRONTEND_URL sample_deps @ ''/auth/success?token='' @ ''tok'')"
proof -
  have run: "signup no_secret_deps 100 [alice] bob_request =
     (respond 400 (error_json ''secretOrPrivateKey must have a value''), [alice, bob])"
    by (simp add: signup_def no_secret_deps_def sample_deps_def alice_def bob_def bob_request_def
        User_findOne_def by_email_def User_create_def signup_document_def signToken_def
        jwt_sign_def secret_message_def Let_def)
  have bearer: "bearer_token sample_request = Some ''tok'' \<and> ''tok'' \<noteq> [] \<and>
      jwt_verify sample_deps ''tok'' (JWT_SECRET sample_deps) 120 = Inr sample_payload \<and>
      User_findById (jwt_id sample_payload) [alice] = Some alice"
    by (simp add: bearer_token_def sample_request_def startsWith_def at_index_def jwt_verify_def
        sample_deps_def sample_payload_def User_findById_def alice_def)
  have issued: "(None :: string option) = None \<and>
      signToken sample_deps 100 (map_option u_id (Some alice)) = Inr ''tok''"
    by (simp add: signToken_def jwt_sign_def sample_deps_def Let_def)
  note all = handlers_answer_in_envelope
  from all [of no_secret_deps 100 "[alice]" bob_request]
  have e1: "envelope_outcome (fst (signup no_secret_deps 100 [alice] bob_request))" by blast
  from all [of sample_deps 120 "[alice, carol]" carol_login]
  have e2: "envelope_outcome (login sample_deps 120 [alice, carol] carol_login)" by blast
  from all [of sample_deps 120 "[alice]" sample_request] bearer
  have e3: "protect sample_deps 120 [alice] sample_request =
     Next (sample_request\<lparr> req_user := Some alice \<rparr>)" by blast
  from all [of sample_deps 100 "[]" sample_request _ "Some ''access_denied''" None]
  have e4: "googleCallback sample_deps 100 (Some ''access_denied'') None =
     respond 401 (error_json ''access_denied'')" by blast
  from all [of sample_deps 100 "[]" sample_request _ None "Some alice"] issued
  have e5: "googleCallback sample_deps 100 None (Some alice) =
     Redirected (FRONTEND_URL sample_deps @ ''/auth/success?token='' @ ''tok'')" by blast
  from run e1 e2 e3 e4 e5 show ?thesis by blast
qed

end
